theory Spec2Isabelle
  imports Main "HOL-Library.Word"
begin

section \<open>JavaScript values\<close>

text \<open>
  The values that the widget and the preview frame handle: primitives, BigInts, arrays
  and plain objects. A number is an integer of the range \<open>-2^53 \<dots> 2^53 - 1\<close>, where
  every integer is a number of the language. A string is over \<^typ>\<open>char\<close>. An object is
  the association list of its own data properties, in the order in which they are
  enumerated (keys are distinct; a lookup takes the first binding), and may have one
  method of its own, \<^verbatim>\<open>toJSON\<close>, given by the value it returns. Other functions,
  symbols, fractions and cyclic object graphs are not represented.
\<close>

datatype jsval =
    JUndefined
  | JNull
  | JBool bool
  | JNum "54 word"
  | JBigInt int
  | JStr string
  | JArr "jsval list"
  | JObj "(string \<times> jsval) list" "jsval option"

datatype js_error = TypeError

datatype js_type = TUndefined | TObject | TBoolean | TNumber | TBigint | TString

text \<open>The \<^verbatim>\<open>typeof\<close> operator: \<^verbatim>\<open>null\<close>, arrays and objects are all \<^verbatim>\<open>'object'\<close>.\<close>

fun typeof :: "jsval \<Rightarrow> js_type" where
  "typeof JUndefined = TUndefined"
| "typeof JNull = TObject"
| "typeof (JBool b) = TBoolean"
| "typeof (JNum n) = TNumber"
| "typeof (JBigInt n) = TBigint"
| "typeof (JStr s) = TString"
| "typeof (JArr xs) = TObject"
| "typeof (JObj kvs t) = TObject"

text \<open>Truthiness, as tested by \<^verbatim>\<open>if (v)\<close>, \<^verbatim>\<open>!v\<close> and \<^verbatim>\<open>a && b\<close>.\<close>

fun truthy :: "jsval \<Rightarrow> bool" where
  "truthy JUndefined = False"
| "truthy JNull = False"
| "truthy (JBool b) = b"
| "truthy (JNum n) = (n \<noteq> 0)"
| "truthy (JBigInt n) = (n \<noteq> 0)"
| "truthy (JStr s) = (s \<noteq> [])"
| "truthy (JArr xs) = True"
| "truthy (JObj kvs t) = True"

text \<open>
  Property read \<^verbatim>\<open>v.k\<close> for a name \<open>k\<close> that no built-in prototype defines (the
  source reads \<^verbatim>\<open>type\<close>, \<^verbatim>\<open>method\<close>, \<^verbatim>\<open>args\<close> and \<^verbatim>\<open>message\<close>):
  a TypeError on \<^verbatim>\<open>undefined\<close> and \<^verbatim>\<open>null\<close>, the own property of an object,
  \<^verbatim>\<open>undefined\<close> everywhere else.
\<close>

fun get_prop :: "jsval \<Rightarrow> string \<Rightarrow> js_error + jsval" where
  "get_prop JUndefined k = Inl TypeError"
| "get_prop JNull k = Inl TypeError"
| "get_prop (JObj kvs t) k = Inr (case map_of kvs k of None \<Rightarrow> JUndefined | Some v \<Rightarrow> v)"
| "get_prop v k = Inr JUndefined"

text \<open>
  Decimal rendering of an integer. It is how a BigInt prints, and how a number of the
  range above prints (exponent notation starts far beyond that range).
\<close>

definition digit_char :: "nat \<Rightarrow> char" where
  "digit_char d = ''0123456789'' ! d"

fun digits :: "nat \<Rightarrow> string" where
  "digits n = (if n < 10 then [digit_char n] else digits (n div 10) @ [digit_char (n mod 10)])"

definition show_int :: "int \<Rightarrow> string" where
  "show_int i = (if i < 0 then CHR ''-'' # digits (nat (- i)) else digits (nat i))"

definition show_num :: "54 word \<Rightarrow> string" where
  "show_num n = show_int (sint n)"

fun join_strs :: "string \<Rightarrow> string list \<Rightarrow> string" where
  "join_strs sep [] = []"
| "join_strs sep [x] = x"
| "join_strs sep (x # y # ys) = x @ sep @ join_strs sep (y # ys)"

text \<open>The first error of a list of results, or all the values.\<close>

fun collect :: "(js_error + 'a) list \<Rightarrow> js_error + 'a list" where
  "collect [] = Inr []"
| "collect (Inl e # rs) = Inl e"
| "collect (Inr x # rs) = (case collect rs of Inl e \<Rightarrow> Inl e | Inr xs \<Rightarrow> Inr (x # xs))"

text \<open>
  String conversion, as done by \<^verbatim>\<open>String(v)\<close>, by \<^verbatim>\<open>'...' + v\<close> and by a template
  literal; on the values above the three agree. An array prints its elements joined by
  commas, with \<^verbatim>\<open>undefined\<close> and \<^verbatim>\<open>null\<close> elements printed as the empty string, and
  throws when an element's conversion throws. A plain object prints through the
  inherited \<^verbatim>\<open>toString\<close>, unless it has an own property of that name: that property is
  data, so it cannot be called, the inherited \<^verbatim>\<open>valueOf\<close> only returns the object, and
  the conversion is a TypeError.
\<close>

fun js_String :: "jsval \<Rightarrow> js_error + string" where
  "js_String JUndefined = Inr ''undefined''"
| "js_String JNull = Inr ''null''"
| "js_String (JBool b) = Inr (if b then ''true'' else ''false'')"
| "js_String (JNum n) = Inr (show_num n)"
| "js_String (JBigInt n) = Inr (show_int n)"
| "js_String (JStr s) = Inr s"
| "js_String (JArr xs) =
     (case collect (map (\<lambda>x. if x = JUndefined \<or> x = JNull then Inr [] else js_String x) xs) of
        Inl e \<Rightarrow> Inl e
      | Inr texts \<Rightarrow> Inr (join_strs '','' texts))"
| "js_String (JObj kvs t) =
     (if map_of kvs ''toString'' = None then Inr ''[object Object]'' else Inl TypeError)"

text \<open>
  \<^verbatim>\<open>v.join(sep)\<close>: only an array has a callable \<^verbatim>\<open>join\<close>; on every other value the
  call is a TypeError. The array method converts the elements as above.
\<close>

fun js_join :: "jsval \<Rightarrow> string \<Rightarrow> js_error + string" where
  "js_join (JArr xs) sep =
     (case collect (map (\<lambda>x. if x = JUndefined \<or> x = JNull then Inr [] else js_String x) xs) of
        Inl e \<Rightarrow> Inl e
      | Inr texts \<Rightarrow> Inr (join_strs sep texts))"
| "js_join v sep = Inl TypeError"

subsection \<open>JSON serialization\<close>

definition hex_char :: "nat \<Rightarrow> char" where
  "hex_char d = ''0123456789abcdef'' ! d"

text \<open>One character of a quoted JSON string.\<close>

definition json_escape :: "char \<Rightarrow> string" where
  "json_escape c =
     (if c = CHR 0x22 then [CHR 0x5C, CHR 0x22]
      else if c = CHR 0x5C then [CHR 0x5C, CHR 0x5C]
      else if c = CHR 0x08 then [CHR 0x5C, CHR ''b'']
      else if c = CHR 0x09 then [CHR 0x5C, CHR ''t'']
      else if c = CHR 0x0A then [CHR 0x5C, CHR ''n'']
      else if c = CHR 0x0C then [CHR 0x5C, CHR ''f'']
      else if c = CHR 0x0D then [CHR 0x5C, CHR ''r'']
      else if of_char c < (32::nat) then
        [CHR 0x5C, CHR ''u'', CHR ''0'', CHR ''0'',
         hex_char (of_char c div 16), hex_char (of_char c mod 16)]
      else [c])"

definition json_quote :: "string \<Rightarrow> string" where
  "json_quote s = [CHR 0x22] @ concat (map json_escape s) @ [CHR 0x22]"

text \<open>
  Serialization of one property value: \<open>None\<close> is the \<^verbatim>\<open>undefined\<close> that
  serialization gives for a value with no JSON text. With \<open>call\<close> set, the value's own
  \<^verbatim>\<open>toJSON\<close> method is called first and its result is serialized in the value's place,
  without a second call. A BigInt is a TypeError. In an array a value with no JSON text
  prints as \<^verbatim>\<open>null\<close>; in an object its property is left out (as the method itself is).
\<close>

fun json_value :: "bool \<Rightarrow> jsval \<Rightarrow> js_error + string option" where
  "json_value call JUndefined = Inr None"
| "json_value call JNull = Inr (Some ''null'')"
| "json_value call (JBool b) = Inr (Some (if b then ''true'' else ''false''))"
| "json_value call (JNum n) = Inr (Some (show_num n))"
| "json_value call (JBigInt n) = Inl TypeError"
| "json_value call (JStr s) = Inr (Some (json_quote s))"
| "json_value call (JArr xs) =
     (case collect (map (json_value True) xs) of
        Inl e \<Rightarrow> Inl e
      | Inr rs \<Rightarrow>
          Inr (Some (''['' @ join_strs '','' (map (\<lambda>r. case r of None \<Rightarrow> ''null'' | Some t \<Rightarrow> t) rs)
                     @ '']'')))"
| "json_value call (JObj kvs t) =
     (case (call, t) of
        (True, Some result) \<Rightarrow> json_value False result
      | _ \<Rightarrow>
        (case collect (map (\<lambda>(k, v). case json_value True v of Inl e \<Rightarrow> Inl e | Inr r \<Rightarrow> Inr (k, r)) kvs) of
           Inl e \<Rightarrow> Inl e
         | Inr rs \<Rightarrow>
             Inr (Some (''{'' @ join_strs '',''
                          (concat (map (\<lambda>(k, r). case r of None \<Rightarrow> [] | Some t \<Rightarrow> [json_quote k @ '':'' @ t]) rs))
                        @ ''}''))))"

text \<open>\<^verbatim>\<open>JSON.stringify(v)\<close>: a string, \<^verbatim>\<open>undefined\<close>, or a thrown TypeError.\<close>

definition JSON_stringify :: "jsval \<Rightarrow> js_error + jsval" where
  "JSON_stringify v =
     (case json_value True v of
        Inl e \<Rightarrow> Inl e
      | Inr None \<Rightarrow> Inr JUndefined
      | Inr (Some s) \<Rightarrow> Inr (JStr s))"

section \<open>The preview document\<close>

text \<open>
  \<^verbatim>\<open>generatePreviewHTML(code)\<close> is a template literal with one hole: the text before
  the hole, the code, the text after the hole.
\<close>

definition preview_head :: string where
  \<open>preview_head =
   ''\<newline>'' @
   ''<!DOCTYPE html>\<newline>'' @
   ''<html>\<newline>'' @
   ''<head>\<newline>'' @
   ''    <meta charset="UTF-8">\<newline>'' @
   ''    <script src="https://cdnjs.cloudflare.com/ajax/libs/p5.js/1.9.0/p5.min.js"></script>\<newline>'' @
   ''    <style>\<newline>'' @
   ''        * { margin: 0; padding: 0; box-sizing: border-box; }\<newline>'' @
   ''        body { \<newline>'' @
   ''            background: #000; \<newline>'' @
   ''            overflow: hidden;\<newline>'' @
   ''            display: flex;\<newline>'' @
   ''            justify-content: center;\<newline>'' @
   ''            align-items: center;\<newline>'' @
   ''            min-height: 100vh;\<newline>'' @
   ''        }\<newline>'' @
   ''        canvas { \<newline>'' @
   ''            display: block;\<newline>'' @
   ''        }\<newline>'' @
   ''    </style>\<newline>'' @
   ''</head>\<newline>'' @
   ''<body>\<newline>'' @
   ''    <script>\<newline>'' @
   ''        // Override console methods to send messages to parent\<newline>'' @
   ''        (function() {\<newline>'' @
   ''            const originalConsole = {\<newline>'' @
   ''                log: console.log,\<newline>'' @
   ''                error: console.error,\<newline>'' @
   ''                warn: console.warn,\<newline>'' @
   ''                info: console.info\<newline>'' @
   ''            };\<newline>'' @
   ''            \<newline>'' @
   ''            function sendToParent(method, args) {\<newline>'' @
   ''                try {\<newline>'' @
   ''                    window.parent.postMessage({\<newline>'' @
   ''                        type: 'console',\<newline>'' @
   ''                        method: method,\<newline>'' @
   ''                        args: Array.from(args).map(arg => {\<newline>'' @
   ''                            if (typeof arg === 'object') {\<newline>'' @
   ''                                try {\<newline>'' @
   ''                                    return JSON.stringify(arg);\<newline>'' @
   ''                                } catch(e) {\<newline>'' @
   ''                                    return String(arg);\<newline>'' @
   ''                                }\<newline>'' @
   ''                            }\<newline>'' @
   ''                            return String(arg);\<newline>'' @
   ''                        })\<newline>'' @
   ''                    }, '*');\<newline>'' @
   ''                } catch(e) {}\<newline>'' @
   ''            }\<newline>'' @
   ''            \<newline>'' @
   ''            console.log = function() {\<newline>'' @
   ''                sendToParent('log', arguments);\<newline>'' @
   ''                originalConsole.log.apply(console, arguments);\<newline>'' @
   ''            };\<newline>'' @
   ''            \<newline>'' @
   ''            console.error = function() {\<newline>'' @
   ''                sendToParent('error', arguments);\<newline>'' @
   ''                originalConsole.error.apply(console, arguments);\<newline>'' @
   ''            };\<newline>'' @
   ''            \<newline>'' @
   ''            console.warn = function() {\<newline>'' @
   ''                sendToParent('warn', arguments);\<newline>'' @
   ''                originalConsole.warn.apply(console, arguments);\<newline>'' @
   ''            };\<newline>'' @
   ''            \<newline>'' @
   ''            console.info = function() {\<newline>'' @
   ''                sendToParent('info', arguments);\<newline>'' @
   ''                originalConsole.info.apply(console, arguments);\<newline>'' @
   ''            };\<newline>'' @
   ''            \<newline>'' @
   ''            window.onerror = function(message, source, lineno, colno, error) {\<newline>'' @
   ''                sendToParent('error', ['Error: ' + message + ' (line ' + lineno + ')']);\<newline>'' @
   ''                return false;\<newline>'' @
   ''            };\<newline>'' @
   ''        })();\<newline>'' @
   ''    </script>\<newline>'' @
   ''    <script>\<newline>'' @
   ''        try {\<newline>'' @
   ''            ''\<close>

definition preview_tail :: string where
  \<open>preview_tail =
   ''\<newline>'' @
   ''        } catch(err) {\<newline>'' @
   ''            console.error('Runtime Error: ' + err.message);\<newline>'' @
   ''            function setup() {\<newline>'' @
   ''                createCanvas(400, 400);\<newline>'' @
   ''                background(40);\<newline>'' @
   ''                fill(255, 100, 100);\<newline>'' @
   ''                textAlign(CENTER, CENTER);\<newline>'' @
   ''                textSize(16);\<newline>'' @
   ''                text('Error: ' + err.message, width/2, height/2);\<newline>'' @
   ''                noLoop();\<newline>'' @
   ''            }\<newline>'' @
   ''        }\<newline>'' @
   ''    </script>\<newline>'' @
   ''</body>\<newline>'' @
   ''</html>''\<close>

definition generatePreviewHTML :: "string \<Rightarrow> string" where
  "generatePreviewHTML code = preview_head @ code @ preview_tail"


subsection \<open>The console shim of the preview document\<close>

text \<open>\<^verbatim>\<open>String(arg)\<close> as a value.\<close>

definition String_of :: "jsval \<Rightarrow> js_error + jsval" where
  "String_of arg = (case js_String arg of Inl e \<Rightarrow> Inl e | Inr s \<Rightarrow> Inr (JStr s))"

text \<open>
  The argument mapping of \<^verbatim>\<open>sendToParent\<close>: an argument whose \<^verbatim>\<open>typeof\<close> is
  \<^verbatim>\<open>'object'\<close> goes through \<^verbatim>\<open>JSON.stringify\<close> inside a try block whose handler
  returns \<^verbatim>\<open>String(arg)\<close>; any other argument is \<^verbatim>\<open>String(arg)\<close>. Either
  \<^verbatim>\<open>String(arg)\<close> may throw.
\<close>

definition stringify_arg :: "jsval \<Rightarrow> js_error + jsval" where
  "stringify_arg arg =
     (if typeof arg = TObject then
        (case JSON_stringify arg of Inr r \<Rightarrow> Inr r | Inl e \<Rightarrow> String_of arg)
      else String_of arg)"

text \<open>
  \<^verbatim>\<open>sendToParent(method, args)\<close> returns the messages it posts to the parent window:
  one message, or none when the argument mapping throws, which the outer try block
  swallows. (The entries of a message are strings or \<^verbatim>\<open>undefined\<close>, which posting
  can always copy.)
\<close>

definition sendToParent :: "string \<Rightarrow> jsval list \<Rightarrow> jsval list" where
  "sendToParent method args =
     (case collect (map stringify_arg args) of
        Inl e \<Rightarrow> []
      | Inr entries \<Rightarrow>
          [JObj [(''type'', JStr ''console''),
                 (''method'', JStr method),
                 (''args'', JArr entries)] None])"

datatype console_method = Log | Error | Warn | Info

fun method_name :: "console_method \<Rightarrow> string" where
  "method_name Log = ''log''"
| "method_name Error = ''error''"
| "method_name Warn = ''warn''"
| "method_name Info = ''info''"

text \<open>
  An overridden console method forwards its arguments to the parent (and then calls the
  original method, which only writes to the frame's own console).
\<close>

definition console_call :: "console_method \<Rightarrow> jsval list \<Rightarrow> jsval list" where
  "console_call m args = sendToParent (method_name m) args"

text \<open>
  \<^verbatim>\<open>window.onerror\<close>, called by the browser for an uncaught exception with its own
  description of the exception and a line number.
\<close>

definition onerror :: "string \<Rightarrow> 54 word \<Rightarrow> jsval list" where
  "onerror message lineno =
     sendToParent ''error'' [JStr (''Error: '' @ message @ '' (line '' @ show_num lineno @ '')'')]"

subsection \<open>The script that runs the user's code\<close>

text \<open>
  What evaluating the user's code does, as far as the preview document can observe it:
  the console calls it makes, in order, and how it completes.
\<close>

datatype completion = Normal | Throw jsval

record behaviour =
  console_calls :: "(console_method \<times> jsval list) list"
  outcome :: completion

text \<open>
  The result of the script: the messages posted to the parent, in order, and the text that
  the fallback \<^verbatim>\<open>setup\<close> draws when the handler has declared it.
\<close>

record frame_result =
  posted :: "jsval list"
  fallback :: "string option"

text \<open>
  \<^verbatim>\<open>try { code } catch(err) { console.error('Runtime Error: ' + err.message);
  function setup() { ... text('Error: ' + err.message, ...) ... } }\<close>.
  The argument of \<^verbatim>\<open>console.error\<close> is evaluated first: reading \<^verbatim>\<open>err.message\<close>
  throws when \<^verbatim>\<open>err\<close> is \<^verbatim>\<open>undefined\<close> or \<^verbatim>\<open>null\<close>, and the concatenation throws
  when the message has no string conversion. Either exception leaves the handler before
  \<^verbatim>\<open>setup\<close> is declared and reaches \<^verbatim>\<open>window.onerror\<close>, for which the browser
  supplies \<open>uncaught\<close> and \<open>lineno\<close>.
\<close>

definition run_user_script :: "string \<Rightarrow> 54 word \<Rightarrow> behaviour \<Rightarrow> frame_result" where
  "run_user_script uncaught lineno b =
     (let sent = concat (map (\<lambda>(m, args). console_call m args) (console_calls b)) in
      case outcome b of
        Normal \<Rightarrow> \<lparr>posted = sent, fallback = None\<rparr>
      | Throw err \<Rightarrow>
          (case get_prop err ''message'' of
             Inl e \<Rightarrow> \<lparr>posted = sent @ onerror uncaught lineno, fallback = None\<rparr>
           | Inr msg \<Rightarrow>
               (case js_String msg of
                  Inl e \<Rightarrow> \<lparr>posted = sent @ onerror uncaught lineno, fallback = None\<rparr>
                | Inr text \<Rightarrow>
                    \<lparr>posted = sent @ console_call Error [JStr (''Runtime Error: '' @ text)],
                     fallback = Some (''Error: '' @ text)\<rparr>)))"


section \<open>The editing component\<close>

text \<open>
  The text that the embedded editing component (CodeMirror 5, which the page loads; it is
  not part of the repository) holds after \<^verbatim>\<open>setValue(text)\<close> and returns from
  \<^verbatim>\<open>getValue()\<close>: the component splits the text into lines at every CR LF, CR and LF
  and joins the lines with LF.
\<close>

fun cm_text :: "string \<Rightarrow> string" where
  "cm_text [] = []"
| "cm_text [c] = [if c = CHR 0x0D then CHR 0x0A else c]"
| "cm_text (c # d # cs) =
     (if c = CHR 0x0D then
        (if d = CHR 0x0A then CHR 0x0A # cm_text cs else CHR 0x0A # cm_text (d # cs))
      else c # cm_text (d # cs))"

section \<open>The editor widget\<close>

text \<open>
  The constructor's option bag, as far as the modelled methods read it: each flag by its
  truthiness, \<^verbatim>\<open>initialCode\<close> absent or a string.
\<close>

record options =
  autoRun :: bool
  showConsole :: bool
  initialCode :: "string option"

text \<open>A child of the \<^verbatim>\<open>.console-messages\<close> element.\<close>

datatype panel_node =
    Placeholder
  | ConsoleLine string string  \<comment> \<open>\<^verbatim>\<open>className\<close> and \<^verbatim>\<open>textContent\<close>\<close>

record example =
  ex_name :: string
  ex_code :: string

text \<open>A button of the tab strip: its label and whether its class list has \<^verbatim>\<open>active\<close>.\<close>

record tab =
  tab_text :: string
  tab_active :: bool

text \<open>
  The state of one \<^verbatim>\<open>P5CodeEditor\<close>. \<open>buffer\<close> is the text held by the editing
  component; \<open>consoleMessagesEl\<close> is \<open>None\<close> when the query for
  \<^verbatim>\<open>.console-messages\<close> found no element, else the element's children;
  \<open>previewFrame\<close> lists the documents assigned to the frame's source, oldest first;
  \<open>examples\<close> is \<open>None\<close> while the field is undefined.
\<close>

record widget =
  buffer :: string
  originalCode :: string
  consoleMessages :: "(jsval \<times> jsval) list"
  consoleMessagesEl :: "panel_node list option"
  previewFrame :: "string list"
  examples :: "example list option"
  examplesTabs :: "tab list"
  examplesTabs_shown :: bool

definition setCode :: "string \<Rightarrow> widget \<Rightarrow> widget" where
  "setCode code w = w\<lparr>originalCode := code, buffer := cm_text code\<rparr>"

definition getCode :: "widget \<Rightarrow> string" where
  "getCode w = buffer w"

text \<open>
  An edit made in the editing component leaves some text in it, held like any other.
\<close>

definition edit :: "string \<Rightarrow> widget \<Rightarrow> widget" where
  "edit text w = w\<lparr>buffer := cm_text text\<rparr>"

definition clearConsole :: "widget \<Rightarrow> widget" where
  "clearConsole w =
     (let w1 = (if consoleMessagesEl w \<noteq> None then w\<lparr>consoleMessagesEl := Some []\<rparr> else w)
      in w1\<lparr>consoleMessages := []\<rparr>)"

definition runCode :: "widget \<Rightarrow> widget" where
  "runCode w =
     (let code = getCode w;
          w1 = clearConsole w;
          html = generatePreviewHTML code
      in w1\<lparr>previewFrame := previewFrame w1 @ [html]\<rparr>)"

definition resetCode :: "widget \<Rightarrow> widget" where
  "resetCode w =
     (if originalCode w \<noteq> [] then runCode (w\<lparr>buffer := cm_text (originalCode w)\<rparr>) else w)"

text \<open>
  \<^verbatim>\<open>addConsoleMessage(method, args)\<close>. The class name is built from the method by a
  template literal, then \<^verbatim>\<open>args.join(' ')\<close> is called, and only then is anything
  appended: when either throws, the widget is as it was and the exception leaves the
  method.
\<close>

definition addConsoleMessage :: "jsval \<Rightarrow> jsval \<Rightarrow> widget \<Rightarrow> js_error + widget" where
  "addConsoleMessage method args w =
     (case consoleMessagesEl w of
        None \<Rightarrow> Inr w
      | Some children \<Rightarrow>
          (case js_String method of
             Inl e \<Rightarrow> Inl e
           | Inr kind \<Rightarrow>
               (case js_join args '' '' of
                  Inl e \<Rightarrow> Inl e
                | Inr txt \<Rightarrow>
                    Inr (w\<lparr>consoleMessagesEl :=
                              Some (children @ [ConsoleLine (''console-message '' @ kind) txt]),
                            consoleMessages := consoleMessages w @ [(method, args)]\<rparr>))))"

text \<open>
  The listener for the window's \<^verbatim>\<open>message\<close> event, applied to \<^verbatim>\<open>event.data\<close>:
  \<^verbatim>\<open>if (event.data && event.data.type === 'console')
      this.addConsoleMessage(event.data.method, event.data.args)\<close>.
\<close>

definition on_message :: "jsval \<Rightarrow> widget \<Rightarrow> js_error + widget" where
  "on_message data w =
     (if truthy data \<and> get_prop data ''type'' = Inr (JStr ''console'') then
        (case get_prop data ''method'' of
           Inl e \<Rightarrow> Inl e
         | Inr method \<Rightarrow>
             (case get_prop data ''args'' of
                Inl e \<Rightarrow> Inl e
              | Inr args \<Rightarrow> addConsoleMessage method args w))
      else Inr w)"

text \<open>
  \<^verbatim>\<open>loadExample(index)\<close>: indexing an undefined \<^verbatim>\<open>examples\<close> field is a TypeError; an
  index past the end reads \<^verbatim>\<open>undefined\<close> and the method returns.
\<close>

definition loadExample :: "nat \<Rightarrow> widget \<Rightarrow> js_error + widget" where
  "loadExample index w =
     (case examples w of
        None \<Rightarrow> Inl TypeError
      | Some exs \<Rightarrow>
          if index < length exs then
            (let w1 = w\<lparr>examplesTabs :=
                         map (\<lambda>(i, t). t\<lparr>tab_active := (i = index)\<rparr>)
                             (zip [0..<length (examplesTabs w)] (examplesTabs w))\<rparr>
             in Inr (runCode (setCode (ex_code (exs ! index)) w1)))
          else Inr w)"

text \<open>
  \<^verbatim>\<open>setExamples(examples)\<close>: an empty list only hides the tab strip; otherwise the strip
  is rebuilt, one tab per example with the first one active, and the first example is
  loaded.
\<close>

definition setExamples :: "example list \<Rightarrow> widget \<Rightarrow> js_error + widget" where
  "setExamples exs w =
     (if exs = [] then Inr (w\<lparr>examplesTabs_shown := False\<rparr>)
      else
        loadExample 0
          (w\<lparr>examplesTabs_shown := True,
             examples := Some exs,
             examplesTabs :=
               map (\<lambda>(i, ex). \<lparr>tab_text = ex_name ex, tab_active = (i = 0)\<rparr>)
                   (zip [0..<length exs] exs)\<rparr>))"

text \<open>
  The constructor, followed by \<^verbatim>\<open>init()\<close>: no widget when the container element is
  missing; the console panel, holding its placeholder, only when \<^verbatim>\<open>showConsole\<close> is
  set; the initial code is set and run when \<^verbatim>\<open>autoRun\<close> is set and \<^verbatim>\<open>initialCode\<close>
  is a non-empty string.
\<close>

definition createStructure :: "options \<Rightarrow> widget" where
  "createStructure opts =
     \<lparr>buffer = [],
      originalCode = [],
      consoleMessages = [],
      consoleMessagesEl = (if showConsole opts then Some [Placeholder] else None),
      previewFrame = [],
      examples = None,
      examplesTabs = [],
      examplesTabs_shown = False\<rparr>"

definition init :: "options \<Rightarrow> widget" where
  "init opts =
     (let w = createStructure opts in
      case initialCode opts of
        None \<Rightarrow> w
      | Some code \<Rightarrow> if autoRun opts \<and> code \<noteq> [] then runCode (setCode code w) else w)"

definition construct :: "bool \<Rightarrow> options \<Rightarrow> widget option" where
  "construct container_found opts = (if container_found then Some (init opts) else None)"

text \<open>The constructor's defaults: auto-run and console on, no initial code.\<close>

definition default_options :: options where
  "default_options = \<lparr>autoRun = True, showConsole = True, initialCode = None\<rparr>"

subsection \<open>Operations on a widget, one after another\<close>

datatype event =
    EvSetCode string
  | EvEdit string
  | EvRunCode
  | EvResetCode
  | EvClearConsole
  | EvMessage jsval
  | EvSetExamples "example list"
  | EvLoadExample nat

text \<open>
  An operation that throws leaves the widget as the throwing method left it, which for
  the methods above is the widget before the call.
\<close>

definition keep_on_error :: "widget \<Rightarrow> js_error + widget \<Rightarrow> widget" where
  "keep_on_error w r = (case r of Inl e \<Rightarrow> w | Inr w' \<Rightarrow> w')"

fun step :: "widget \<Rightarrow> event \<Rightarrow> widget" where
  "step w (EvSetCode code) = setCode code w"
| "step w (EvEdit text) = edit text w"
| "step w EvRunCode = runCode w"
| "step w EvResetCode = resetCode w"
| "step w EvClearConsole = clearConsole w"
| "step w (EvMessage data) = keep_on_error w (on_message data w)"
| "step w (EvSetExamples exs) = keep_on_error w (setExamples exs w)"
| "step w (EvLoadExample i) = keep_on_error w (loadExample i w)"

definition run_events :: "widget \<Rightarrow> event list \<Rightarrow> widget" where
  "run_events w evs = foldl step w evs"


subsection \<open>What the console log is expected to hold\<close>

text \<open>
  Whether handling an event calls \<^verbatim>\<open>clearConsole()\<close>, directly or through
  \<^verbatim>\<open>runCode()\<close>: the guards of \<^verbatim>\<open>resetCode\<close>, \<^verbatim>\<open>setExamples\<close> and
  \<^verbatim>\<open>loadExample\<close> decide it for those three.
\<close>

fun clears :: "widget \<Rightarrow> event \<Rightarrow> bool" where
  "clears w EvRunCode = True"
| "clears w EvClearConsole = True"
| "clears w EvResetCode = (originalCode w \<noteq> [])"
| "clears w (EvSetExamples exs) = (exs \<noteq> [])"
| "clears w (EvLoadExample i) = (case examples w of None \<Rightarrow> False | Some exs \<Rightarrow> i < length exs)"
| "clears w (EvSetCode code) = False"
| "clears w (EvEdit text) = False"
| "clears w (EvMessage data) = False"

text \<open>
  A console message that can be shown: its method converts to a string and
  \<^verbatim>\<open>args.join\<close> returns.
\<close>

definition showable :: "jsval \<Rightarrow> jsval \<Rightarrow> bool" where
  "showable method args =
     (case (js_String method, js_join args '' '') of (Inr kind, Inr txt) \<Rightarrow> True | _ \<Rightarrow> False)"

text \<open>
  The log entry of a received message: one entry \<open>(method, args)\<close> for a message that
  passes the listener's test and can be shown, none for any other message or event.
\<close>

fun received :: "event \<Rightarrow> (jsval \<times> jsval) list" where
  "received (EvMessage data) =
     (if truthy data \<and> get_prop data ''type'' = Inr (JStr ''console'') then
        (case (get_prop data ''method'', get_prop data ''args'') of
           (Inr method, Inr args) \<Rightarrow> if showable method args then [(method, args)] else []
         | _ \<Rightarrow> [])
      else [])"
| "received ev = []"

text \<open>
  The entries received since the most recent clearing event, in arrival order, starting
  from the entries \<open>acc\<close> already there.
\<close>

fun log_since :: "widget \<Rightarrow> (jsval \<times> jsval) list \<Rightarrow> event list \<Rightarrow> (jsval \<times> jsval) list" where
  "log_since w acc [] = acc"
| "log_since w acc (ev # evs) =
     log_since (step w ev) (if clears w ev then [] else acc @ received ev) evs"



definition is_string :: "jsval \<Rightarrow> bool" where
  "is_string v = (case v of JStr s \<Rightarrow> True | _ \<Rightarrow> False)"


text \<open>
  The message shape that the interface description gives:
  \<^verbatim>\<open>{ type: "console", method: one of log|error|warn|info, args: sequence of strings }\<close>.
\<close>

definition described_shape :: "jsval \<Rightarrow> bool" where
  "described_shape data =
     (case data of
        JObj kvs t \<Rightarrow>
          map_of kvs ''type'' = Some (JStr ''console'')
          \<and> (case map_of kvs ''method'' of
                Some (JStr m) \<Rightarrow> m \<in> set [''log'', ''error'', ''warn'', ''info'']
              | _ \<Rightarrow> False)
          \<and> (case map_of kvs ''args'' of
                Some (JArr xs) \<Rightarrow> list_all is_string xs
              | _ \<Rightarrow> False)
      | _ \<Rightarrow> False)"

text \<open>
  The tab strip shows the current example list: once \<^verbatim>\<open>examples\<close> is set, the tabs
  carry the names of the examples, in order.
\<close>

definition tabs_match :: "widget \<Rightarrow> bool" where
  "tabs_match w =
     (case examples w of
        None \<Rightarrow> True
      | Some exs \<Rightarrow> map tab_text (examplesTabs w) = map ex_name exs)"

section \<open>The theme toggle\<close>

datatype icon = PageIcon | Sun | Moon

text \<open>
  The page state that the script reads and writes: the \<^verbatim>\<open>data-theme\<close> attribute of the
  document element, the local storage, and the text of the \<^verbatim>\<open>themeToggle\<close> element
  (\<open>None\<close> when the page has no such element; \<open>PageIcon\<close> is the text the page came
  with).
\<close>

record page =
  data_theme :: "string option"
  localStorage :: "string \<rightharpoonup> string"
  themeToggle :: "icon option"

text \<open>The \<^verbatim>\<open>DOMContentLoaded\<close> handler, up to the registration of the click handler.\<close>

definition theme_loaded :: "page \<Rightarrow> page" where
  "theme_loaded p =
     (case themeToggle p of
        None \<Rightarrow> p
      | Some t \<Rightarrow> if data_theme p = Some ''light'' then p\<lparr>themeToggle := Some Sun\<rparr> else p)"

text \<open>The click handler; a page without the element has no handler.\<close>

definition toggle_click :: "page \<Rightarrow> page" where
  "toggle_click p =
     (case themeToggle p of
        None \<Rightarrow> p
      | Some t \<Rightarrow>
          if data_theme p = Some ''light'' then
            p\<lparr>data_theme := None,
              localStorage := (localStorage p)(''theme'' \<mapsto> ''dark''),
              themeToggle := Some Moon\<rparr>
          else
            p\<lparr>data_theme := Some ''light'',
              localStorage := (localStorage p)(''theme'' \<mapsto> ''light''),
              themeToggle := Some Sun\<rparr>)"

text \<open>
  The attribute and the persisted value agree, as they do after every click: light with
  \<^verbatim>\<open>light\<close> stored, or no attribute with \<^verbatim>\<open>dark\<close> stored.
\<close>

definition settled :: "page \<Rightarrow> bool" where
  "settled p \<longleftrightarrow>
     (data_theme p = Some ''light'' \<and> localStorage p ''theme'' = Some ''light'')
     \<or> (data_theme p = None \<and> localStorage p ''theme'' = Some ''dark'')"

section \<open>Sample inputs\<close>


section \<open>Properties of the editor buffer\<close>

lemma cm_text_no_CR: "CHR 0x0D \<notin> set (cm_text t)"
  by (induction t rule: cm_text.induct) auto

lemma cm_text_id: "CHR 0x0D \<notin> set t \<Longrightarrow> cm_text t = t"
  by (induction t rule: cm_text.induct) auto

lemma cm_text_fixed: "(cm_text t = t) = (CHR 0x0D \<notin> set t)"
proof
  assume "cm_text t = t"
  then show "CHR 0x0D \<notin> set t"
    using cm_text_no_CR [of t] by simp
next
  assume "CHR 0x0D \<notin> set t"
  then show "cm_text t = t" by (rule cm_text_id)
qed

lemma clearConsole_fields:
  "buffer (clearConsole w) = buffer w"
  "originalCode (clearConsole w) = originalCode w"
  "previewFrame (clearConsole w) = previewFrame w"
  "examples (clearConsole w) = examples w"
  "examplesTabs (clearConsole w) = examplesTabs w"
  "consoleMessages (clearConsole w) = []"
  "consoleMessagesEl (clearConsole w) = map_option (\<lambda>c. []) (consoleMessagesEl w)"
  by (cases "consoleMessagesEl w"; simp add: clearConsole_def)+

lemma runCode_fields:
  "buffer (runCode w) = buffer w"
  "originalCode (runCode w) = originalCode w"
  "previewFrame (runCode w) = previewFrame w @ [generatePreviewHTML (buffer w)]"
  "examples (runCode w) = examples w"
  "examplesTabs (runCode w) = examplesTabs w"
  "consoleMessages (runCode w) = []"
  "consoleMessagesEl (runCode w) = map_option (\<lambda>c. []) (consoleMessagesEl w)"
  by (simp_all add: runCode_def Let_def getCode_def clearConsole_fields)

lemma edits_originalCode: "originalCode (run_events w (map EvEdit texts)) = originalCode w"
  by (induction texts arbitrary: w) (simp_all add: run_events_def edit_def)

lemma edits_previewFrame: "previewFrame (run_events w (map EvEdit texts)) = previewFrame w"
  by (induction texts arbitrary: w) (simp_all add: run_events_def edit_def)

text \<open>
  Claim C8, as the code has it. For every code text \<open>t\<close>, \<^verbatim>\<open>setCode(t)\<close> followed by
  \<^verbatim>\<open>getCode()\<close>, with no edit in between, returns \<open>t\<close> as the editing component holds
  it, with every CR LF and every CR turned into LF; that is exactly \<open>t\<close> if and only if
  \<open>t\<close> has no carriage return.
\<close>

theorem getCode_setCode:
  "getCode (setCode t w) = cm_text t
   \<and> (getCode (setCode t w) = t) = (CHR 0x0D \<notin> set t)"
  by (simp add: getCode_def setCode_def cm_text_fixed)

theorem getCode_setCode_witness:
  "getCode (setCode ''draw()'' (init default_options)) = ''draw()''
   \<and> getCode (setCode [CHR ''a'', CHR 0x0D, CHR ''b''] (init default_options))
       = [CHR ''a'', CHR 0x0A, CHR ''b'']"
  using getCode_setCode [of "''draw()''" "init default_options"]
    getCode_setCode [of "[CHR ''a'', CHR 0x0D, CHR ''b'']" "init default_options"]
  by simp

text \<open>
  Claim C8 as stated fails for a text with a Windows line break: after
  \<^verbatim>\<open>setCode\<close> of \<open>a\<close>, CR, LF, \<open>b\<close> the component returns \<open>a\<close>, LF, \<open>b\<close>.
\<close>

theorem getCode_setCode_line_break:
  "getCode (setCode [CHR ''a'', CHR 0x0D, CHR 0x0A, CHR ''b''] (init default_options))
     = [CHR ''a'', CHR 0x0A, CHR ''b'']
   \<and> getCode (setCode [CHR ''a'', CHR 0x0D, CHR 0x0A, CHR ''b''] (init default_options))
       \<noteq> [CHR ''a'', CHR 0x0D, CHR 0x0A, CHR ''b'']"
  by (simp add: getCode_def setCode_def)

text \<open>
  Claim C2, as the code has it. After \<^verbatim>\<open>setCode(t)\<close> and any sequence of edits: for a
  non-empty \<open>t\<close>, \<^verbatim>\<open>resetCode()\<close> puts \<open>t\<close> back into the buffer as the editing
  component holds it (exactly \<open>t\<close> when \<open>t\<close> has no carriage return) and runs it, loading
  the document generated from that text into the frame; for the empty \<open>t\<close>,
  \<^verbatim>\<open>resetCode()\<close> changes nothing.
\<close>

theorem resetCode_restores:
  "(t \<noteq> [] \<longrightarrow>
      buffer (resetCode (run_events (setCode t w) (map EvEdit texts))) = cm_text t
    \<and> previewFrame (resetCode (run_events (setCode t w) (map EvEdit texts)))
        = previewFrame w @ [generatePreviewHTML (cm_text t)]
    \<and> (CHR 0x0D \<notin> set t \<longrightarrow>
          buffer (resetCode (run_events (setCode t w) (map EvEdit texts))) = t))
   \<and> (t = [] \<longrightarrow>
        resetCode (run_events (setCode t w) (map EvEdit texts))
          = run_events (setCode t w) (map EvEdit texts))"
proof -
  let ?w = "run_events (setCode t w) (map EvEdit texts)"
  have orig: "originalCode ?w = t"
    by (simp add: edits_originalCode setCode_def)
  have frame: "previewFrame ?w = previewFrame w"
    by (simp add: edits_previewFrame setCode_def)
  have reset: "resetCode ?w = (if t \<noteq> [] then runCode (?w\<lparr>buffer := cm_text t\<rparr>) else ?w)"
    unfolding resetCode_def orig ..
  then have empty: "t = [] \<longrightarrow> resetCode ?w = ?w"
    by auto
  from reset have "t \<noteq> [] \<longrightarrow> resetCode ?w = runCode (?w\<lparr>buffer := cm_text t\<rparr>)"
    by simp
  then have full: "t \<noteq> [] \<longrightarrow>
      buffer (resetCode ?w) = cm_text t
    \<and> previewFrame (resetCode ?w) = previewFrame w @ [generatePreviewHTML (cm_text t)]
    \<and> (CHR 0x0D \<notin> set t \<longrightarrow> buffer (resetCode ?w) = t)"
    by (simp add: runCode_fields frame cm_text_id)
  from full empty show ?thesis by (intro conjI)
qed

theorem resetCode_restores_witness:
  "''draw()'' \<noteq> []
   \<and> buffer (resetCode (run_events (setCode ''draw()'' (init default_options))
                          (map EvEdit [''dr'', []]))) = ''draw()''
   \<and> previewFrame (resetCode (run_events (setCode ''draw()'' (init default_options))
                                (map EvEdit [''dr'', []]))) = [generatePreviewHTML ''draw()'']
   \<and> resetCode (run_events (setCode [] (init default_options)) (map EvEdit [''x'']))
       = run_events (setCode [] (init default_options)) (map EvEdit [''x''])"
  using resetCode_restores [of "''draw()''" "init default_options" "[''dr'', []]"]
    resetCode_restores [of "[]" "init default_options" "[''x'']"]
  by (simp add: init_def createStructure_def default_options_def)

text \<open>
  Claim C2 as stated fails for the empty text, where \<^verbatim>\<open>resetCode()\<close> leaves the edited
  buffer and loads nothing into the frame, and for a text with a carriage return, which
  comes back with a line feed in its place.
\<close>

theorem resetCode_empty_original:
  "buffer (resetCode (run_events (setCode [] (init default_options)) [EvEdit ''x''])) \<noteq> []
   \<and> previewFrame (resetCode (run_events (setCode [] (init default_options)) [EvEdit ''x'']))
       = previewFrame (run_events (setCode [] (init default_options)) [EvEdit ''x''])
   \<and> buffer (resetCode (run_events (setCode [CHR ''a'', CHR 0x0D, CHR ''b''] (init default_options))
                          [EvEdit ''x'']))
       = [CHR ''a'', CHR 0x0A, CHR ''b'']"
  by (simp add: resetCode_def run_events_def edit_def setCode_def init_def createStructure_def
      default_options_def runCode_fields)

section \<open>Properties of the console\<close>

text \<open>
  Claim C6, as the code has it. Every call of \<^verbatim>\<open>clearConsole()\<close> leaves the message log
  empty whatever it held, and leaves the visible panel, when the widget has one, without
  any child.
\<close>

theorem clearConsole_empties:
  "consoleMessages (clearConsole w) = []
   \<and> consoleMessagesEl (clearConsole w) = map_option (\<lambda>children. []) (consoleMessagesEl w)"
  by (cases "consoleMessagesEl w") (simp_all add: clearConsole_def)

text \<open>
  Claim C6 as stated fails on the placeholder: the panel of a new widget holds the
  placeholder, and after \<^verbatim>\<open>clearConsole()\<close> it holds nothing.
\<close>

theorem clearConsole_no_placeholder:
  "consoleMessagesEl (init default_options) = Some [Placeholder]
   \<and> consoleMessagesEl (clearConsole (init default_options)) = Some []"
  by (simp add: clearConsole_def init_def createStructure_def default_options_def)

lemma on_message_no_panel: "consoleMessagesEl w = None \<Longrightarrow> on_message data w = Inr w"
  by (cases "truthy data \<and> get_prop data ''type'' = Inr (JStr ''console'')";
      cases data; auto simp: on_message_def addConsoleMessage_def)

text \<open>
  Claim C1, as the code has it. A message whose data is falsy, or whose \<^verbatim>\<open>type\<close> is not
  the string \<^verbatim>\<open>console\<close>, is ignored, and so is every message at a widget without a
  console panel: the listener returns normally and the widget, its log and its panel are
  as before.
\<close>

theorem on_message_ignores:
  assumes "\<not> truthy data \<or> get_prop data ''type'' \<noteq> Inr (JStr ''console'')
           \<or> consoleMessagesEl w = None"
  shows "on_message data w = Inr w"
proof (cases "truthy data \<and> get_prop data ''type'' = Inr (JStr ''console'')")
  case False
  then show ?thesis by (auto simp add: on_message_def)
next
  case True
  with assms have "consoleMessagesEl w = None" by blast
  then show ?thesis by (rule on_message_no_panel)
qed

theorem on_message_ignores_witness:
  "get_prop (JObj [(''type'', JStr ''resize''), (''args'', JNum 3)] None) ''type''
     = Inr (JStr ''resize'')
   \<and> on_message (JObj [(''type'', JStr ''resize''), (''args'', JNum 3)] None)
        (init default_options)
       = Inr (init default_options)"
  using on_message_ignores
    [of "JObj [(''type'', JStr ''resize''), (''args'', JNum 3)] None" "init default_options"]
  by simp

text \<open>
  Claim C1 as stated fails where only \<^verbatim>\<open>method\<close> is off the described shape: a message
  of type \<^verbatim>\<open>console\<close> with the method \<^verbatim>\<open>debug\<close> is appended to the panel and to the
  log.
\<close>

theorem on_message_wrong_method_appended:
  "\<not> described_shape
        (JObj [(''type'', JStr ''console''), (''method'', JStr ''debug''),
               (''args'', JArr [JStr ''x''])] None)
   \<and> on_message
        (JObj [(''type'', JStr ''console''), (''method'', JStr ''debug''),
               (''args'', JArr [JStr ''x''])] None)
        (init default_options)
      = Inr ((init default_options)
               \<lparr>consoleMessagesEl :=
                  Some [Placeholder, ConsoleLine ''console-message debug'' ''x''],
                consoleMessages := [(JStr ''debug'', JArr [JStr ''x''])]\<rparr>)"
  by (simp add: described_shape_def on_message_def addConsoleMessage_def init_def
      createStructure_def default_options_def)

text \<open>
  A message of type \<^verbatim>\<open>console\<close> without \<^verbatim>\<open>args\<close>: the call of \<^verbatim>\<open>join\<close> on
  \<^verbatim>\<open>undefined\<close> throws out of the listener.
\<close>

lemma on_message_missing_args:
  "on_message (JObj [(''type'', JStr ''console''), (''method'', JStr ''log'')] None)
     (init default_options) = Inl TypeError"
  by (simp add: on_message_def addConsoleMessage_def init_def createStructure_def
      default_options_def)

section \<open>Properties of the console shim\<close>











section \<open>Properties of the theme toggle\<close>

text \<open>Loading the page changes the icon only.\<close>

lemma theme_loaded_keeps:
  "data_theme (theme_loaded p) = data_theme p \<and> localStorage (theme_loaded p) = localStorage p"
  by (simp add: theme_loaded_def split: option.splits)

lemma toggle_click_settled: "themeToggle p \<noteq> None \<Longrightarrow> settled (toggle_click p)"
  by (auto simp: settled_def toggle_click_def split: option.splits)

text \<open>
  Claim C7, as the code has it. From every state in which the theme attribute and the
  persisted value agree (which is every state after a click), two clicks on the toggle
  return the attribute and the persisted value to what they were.
\<close>

theorem toggle_twice_settled:
  assumes "settled p"
  shows "data_theme (toggle_click (toggle_click p)) = data_theme p
       \<and> localStorage (toggle_click (toggle_click p)) ''theme'' = localStorage p ''theme''"
  using assms by (auto simp: settled_def toggle_click_def split: option.splits)

theorem toggle_twice_settled_witness:
  "settled \<lparr>data_theme = Some ''light'', localStorage = [''theme'' \<mapsto> ''light''],
            themeToggle = Some Sun\<rparr>
   \<and> data_theme (toggle_click (toggle_click
        \<lparr>data_theme = Some ''light'', localStorage = [''theme'' \<mapsto> ''light''],
         themeToggle = Some Sun\<rparr>)) = Some ''light''
   \<and> localStorage (toggle_click (toggle_click
        \<lparr>data_theme = Some ''light'', localStorage = [''theme'' \<mapsto> ''light''],
         themeToggle = Some Sun\<rparr>)) ''theme'' = Some ''light''"
  using toggle_twice_settled
    [of "\<lparr>data_theme = Some ''light'', localStorage = [''theme'' \<mapsto> ''light''],
          themeToggle = Some Sun\<rparr>"]
  by (simp add: settled_def)

text \<open>
  Claim C7 as stated fails on a page with no attribute and nothing persisted: after two
  clicks the attribute is absent again, but the store holds \<^verbatim>\<open>dark\<close>.
\<close>

theorem toggle_twice_fresh_page:
  "localStorage \<lparr>data_theme = None, localStorage = Map.empty, themeToggle = Some PageIcon\<rparr>
     ''theme'' = None
   \<and> localStorage (toggle_click (toggle_click
        \<lparr>data_theme = None, localStorage = Map.empty, themeToggle = Some PageIcon\<rparr>))
     ''theme'' = Some ''dark''"
  by (simp add: toggle_click_def)

section \<open>The console log over a sequence of operations\<close>

text \<open>With a panel, the listener throws, ignores the message, or appends its entry.\<close>

lemma on_message_cases:
  assumes "consoleMessagesEl w = Some children"
  shows "on_message data w = Inl TypeError \<and> received (EvMessage data) = []
   \<or> on_message data w = Inr w \<and> received (EvMessage data) = []
   \<or> (\<exists>m a kind joined. received (EvMessage data) = [(m, a)]
         \<and> on_message data w =
             Inr (w\<lparr>consoleMessagesEl :=
                      Some (children @ [ConsoleLine (''console-message '' @ kind) joined]),
                    consoleMessages := consoleMessages w @ [(m, a)]\<rparr>))"
proof (cases "truthy data \<and> get_prop data ''type'' = Inr (JStr ''console'')")
  case False
  then show ?thesis by (auto simp add: on_message_def)
next
  case True
  then have "data \<noteq> JUndefined" "data \<noteq> JNull" by auto
  then obtain m a where ma: "get_prop data ''method'' = Inr m" "get_prop data ''args'' = Inr a"
    by (cases data) simp_all
  show ?thesis
  proof (cases "js_String m")
    case (Inl e)
    with True ma assms show ?thesis
      by (cases e) (simp add: on_message_def addConsoleMessage_def showable_def)
  next
    case kind: (Inr kind)
    show ?thesis
    proof (cases "js_join a '' ''")
      case (Inl e)
      with kind True ma assms show ?thesis
        by (cases e) (simp add: on_message_def addConsoleMessage_def showable_def)
    next
      case (Inr joined)
      with kind True ma assms
      have "received (EvMessage data) = [(m, a)]
         \<and> on_message data w =
             Inr (w\<lparr>consoleMessagesEl :=
                      Some (children @ [ConsoleLine (''console-message '' @ kind) joined]),
                    consoleMessages := consoleMessages w @ [(m, a)]\<rparr>)"
        by (simp add: on_message_def addConsoleMessage_def showable_def)
      then show ?thesis by blast
    qed
  qed
qed

lemma loadExample_cases:
  "loadExample i w = Inl TypeError \<and> examples w = None
   \<or> loadExample i w = Inr w \<and> \<not> clears w (EvLoadExample i)
   \<or> (\<exists>w1. loadExample i w = Inr (runCode w1) \<and> clears w (EvLoadExample i)
          \<and> consoleMessagesEl w1 = consoleMessagesEl w)"
  by (cases "examples w") (auto simp: loadExample_def Let_def setCode_def)

lemma setExamples_cases:
  "(\<exists>w1. setExamples exs w = Inr w1 \<and> \<not> clears w (EvSetExamples exs)
          \<and> consoleMessagesEl w1 = consoleMessagesEl w \<and> consoleMessages w1 = consoleMessages w)
   \<or> (\<exists>w1. setExamples exs w = Inr (runCode w1) \<and> clears w (EvSetExamples exs)
          \<and> consoleMessagesEl w1 = consoleMessagesEl w)"
  by (cases exs) (auto simp: setExamples_def loadExample_def Let_def setCode_def)

text \<open>No operation creates or removes the console panel.\<close>

lemma step_panel: "(consoleMessagesEl (step w ev) = None) = (consoleMessagesEl w = None)"
proof (cases ev)
  case (EvMessage data)
  show ?thesis
  proof (cases "consoleMessagesEl w")
    case None
    with EvMessage show ?thesis by (simp add: keep_on_error_def on_message_no_panel)
  next
    case (Some children)
    from on_message_cases [OF this, of data] Some EvMessage show ?thesis
      by (auto simp: keep_on_error_def simp del: received.simps)
  qed
next
  case (EvSetExamples exs)
  with setExamples_cases [of exs w] show ?thesis
    by (auto simp: keep_on_error_def runCode_fields)
next
  case (EvLoadExample i)
  with loadExample_cases [of i w] show ?thesis
    by (auto simp: keep_on_error_def runCode_fields)
qed (simp_all add: setCode_def edit_def runCode_fields clearConsole_fields resetCode_def)

text \<open>One operation at a widget with a panel: the log is emptied, or grows by what was received.\<close>

lemma step_log:
  assumes "consoleMessagesEl w \<noteq> None"
  shows "consoleMessages (step w ev)
           = (if clears w ev then [] else consoleMessages w @ received ev)"
proof (cases ev)
  case (EvMessage data)
  from assms obtain children where "consoleMessagesEl w = Some children" by auto
  from on_message_cases [OF this, of data] EvMessage show ?thesis
    by (auto simp: keep_on_error_def simp del: received.simps)
next
  case (EvSetExamples exs)
  with setExamples_cases [of exs w] show ?thesis
    by (auto simp: keep_on_error_def runCode_fields)
next
  case (EvLoadExample i)
  with loadExample_cases [of i w] show ?thesis
    by (auto simp: keep_on_error_def runCode_fields)
qed (simp_all add: setCode_def edit_def runCode_fields clearConsole_fields resetCode_def)

lemma step_no_panel:
  assumes "consoleMessagesEl w = None" "consoleMessages w = []"
  shows "consoleMessages (step w ev) = []"
proof (cases ev)
  case (EvMessage data)
  with assms show ?thesis by (simp add: keep_on_error_def on_message_no_panel)
next
  case (EvSetExamples exs)
  with setExamples_cases [of exs w] assms show ?thesis
    by (auto simp: keep_on_error_def runCode_fields)
next
  case (EvLoadExample i)
  with loadExample_cases [of i w] assms show ?thesis
    by (auto simp: keep_on_error_def runCode_fields)
qed (use assms in
      \<open>simp_all add: setCode_def edit_def runCode_fields clearConsole_fields resetCode_def\<close>)

lemma run_events_Cons: "run_events w (ev # evs) = run_events (step w ev) evs"
  by (simp add: run_events_def)

lemma run_events_append: "run_events w (evs @ evs') = run_events (run_events w evs) evs'"
  by (simp add: run_events_def)

lemma run_events_panel:
  "(consoleMessagesEl (run_events w evs) = None) = (consoleMessagesEl w = None)"
  by (induction evs arbitrary: w) (simp_all add: run_events_def step_panel)

lemma run_events_no_panel:
  "consoleMessagesEl w = None \<Longrightarrow> consoleMessages w = [] \<Longrightarrow>
   consoleMessagesEl (run_events w evs) = None \<and> consoleMessages (run_events w evs) = []"
proof (induction evs arbitrary: w)
  case Nil
  then show ?case by (simp add: run_events_def)
next
  case (Cons ev evs)
  have "consoleMessagesEl (step w ev) = None"
    using Cons.prems(1) by (simp add: step_panel)
  moreover have "consoleMessages (step w ev) = []"
    using Cons.prems by (rule step_no_panel)
  ultimately show ?case
    using Cons.IH by (simp add: run_events_Cons)
qed

lemma run_events_log:
  "consoleMessagesEl w \<noteq> None \<Longrightarrow>
   consoleMessages (run_events w evs) = log_since w (consoleMessages w) evs"
proof (induction evs arbitrary: w)
  case Nil
  then show ?case by (simp add: run_events_def)
next
  case (Cons ev evs)
  have "consoleMessagesEl (step w ev) \<noteq> None"
    using Cons.prems by (simp add: step_panel)
  then have "consoleMessages (run_events (step w ev) evs)
               = log_since (step w ev) (consoleMessages (step w ev)) evs"
    by (rule Cons.IH)
  then show ?case
    using Cons.prems by (simp add: run_events_Cons step_log del: received.simps)
qed

lemma log_since_messages:
  "log_since w acc (map EvMessage ms) = acc @ concat (map (\<lambda>m. received (EvMessage m)) ms)"
  by (induction ms arbitrary: w acc) (simp_all del: received.simps)

text \<open>After an event that clears, the log is what the messages that follow leave.\<close>

lemma log_after_clearing:
  assumes "consoleMessagesEl w \<noteq> None" and "clears w ev"
  shows "consoleMessages (run_events w (ev # map EvMessage ms))
           = concat (map (\<lambda>m. received (EvMessage m)) ms)"
proof -
  from assms(1) have panel: "consoleMessagesEl (step w ev) \<noteq> None"
    by (simp add: step_panel)
  from assms have empty: "consoleMessages (step w ev) = []"
    by (simp add: step_log)
  have "consoleMessages (run_events (step w ev) (map EvMessage ms))
          = log_since (step w ev) [] (map EvMessage ms)"
    using run_events_log [OF panel] by (simp add: empty)
  then show ?thesis
    by (simp add: run_events_Cons log_since_messages del: received.simps)
qed

lemma init_console:
  "consoleMessages (init opts) = []"
  "\<not> showConsole opts \<Longrightarrow> consoleMessagesEl (init opts) = None"
  by (auto simp: init_def Let_def createStructure_def runCode_fields setCode_def
      split: option.splits)

text \<open>
  Claim C10. In a widget constructed with \<^verbatim>\<open>showConsole\<close> off there is no console
  panel, and after any sequence of operations there is still none, the message log is
  empty, \<^verbatim>\<open>addConsoleMessage\<close> returns the widget as it is, and the listener drops every
  message.
\<close>

theorem no_console_panel_drops_messages:
  assumes "construct container_found opts = Some w" and "\<not> showConsole opts"
  shows "consoleMessagesEl (run_events w evs) = None
       \<and> consoleMessages (run_events w evs) = []
       \<and> addConsoleMessage method args (run_events w evs) = Inr (run_events w evs)
       \<and> on_message data (run_events w evs) = Inr (run_events w evs)"
proof -
  from assms(1) have w: "w = init opts"
    by (simp add: construct_def split: if_splits)
  from assms(2) have "consoleMessagesEl w = None" "consoleMessages w = []"
    by (simp_all add: w init_console)
  then have "consoleMessagesEl (run_events w evs) = None
           \<and> consoleMessages (run_events w evs) = []"
    by (rule run_events_no_panel)
  then show ?thesis
    by (simp add: on_message_no_panel addConsoleMessage_def)
qed

theorem no_console_panel_drops_messages_witness:
  "construct True (default_options\<lparr>showConsole := False\<rparr>)
     = Some (init (default_options\<lparr>showConsole := False\<rparr>))
   \<and> \<not> showConsole (default_options\<lparr>showConsole := False\<rparr>)
   \<and> consoleMessages (run_events (init (default_options\<lparr>showConsole := False\<rparr>))
        [EvSetCode ''x'', EvRunCode,
         EvMessage (JObj [(''type'', JStr ''console''), (''method'', JStr ''log''),
                          (''args'', JArr [JStr ''hi''])] None)]) = []"
  using no_console_panel_drops_messages
    [of True "default_options\<lparr>showConsole := False\<rparr>"
        "init (default_options\<lparr>showConsole := False\<rparr>)"
        "[EvSetCode ''x'', EvRunCode,
          EvMessage (JObj [(''type'', JStr ''console''), (''method'', JStr ''log''),
                           (''args'', JArr [JStr ''hi''])] None)]"]
  by (simp add: construct_def)

text \<open>
  Claim C4, as the code has it. \<^verbatim>\<open>runCode()\<close> is \<^verbatim>\<open>clearConsole()\<close> followed by
  loading the document generated from the buffer, so it leaves the log empty. At a widget
  with a console panel, after any sequence of operations the log holds exactly the
  entries of the console messages that could be shown (type \<^verbatim>\<open>console\<close>, a method that
  converts to a string, \<^verbatim>\<open>args\<close> an array whose elements convert to strings) received
  since the most recent call of \<^verbatim>\<open>clearConsole()\<close> or \<^verbatim>\<open>runCode()\<close>, in arrival
  order; in particular, right after an operation that makes such a call, the messages
  that follow are the log.
\<close>

theorem console_log_since_last_clear:
  assumes "consoleMessagesEl w \<noteq> None"
  shows "runCode w
           = (clearConsole w)\<lparr>previewFrame := previewFrame w @ [generatePreviewHTML (buffer w)]\<rparr>
       \<and> consoleMessages (runCode w) = []
       \<and> consoleMessages (run_events w evs) = log_since w (consoleMessages w) evs
       \<and> (clears (run_events w evs) ev \<longrightarrow>
            consoleMessages (run_events w (evs @ ev # map EvMessage ms))
              = concat (map (\<lambda>m. received (EvMessage m)) ms))"
proof -
  have "runCode w
          = (clearConsole w)\<lparr>previewFrame := previewFrame w @ [generatePreviewHTML (buffer w)]\<rparr>"
    by (simp add: runCode_def Let_def getCode_def clearConsole_fields)
  moreover have "consoleMessages (runCode w) = []"
    by (simp add: runCode_fields)
  moreover from assms have "consoleMessages (run_events w evs) = log_since w (consoleMessages w) evs"
    by (rule run_events_log)
  moreover have "clears (run_events w evs) ev \<longrightarrow>
            consoleMessages (run_events w (evs @ ev # map EvMessage ms))
              = concat (map (\<lambda>m. received (EvMessage m)) ms)"
  proof
    assume c: "clears (run_events w evs) ev"
    from assms have "consoleMessagesEl (run_events w evs) \<noteq> None"
      by (simp add: run_events_panel)
    from log_after_clearing [OF this c, of ms] show
      "consoleMessages (run_events w (evs @ ev # map EvMessage ms))
              = concat (map (\<lambda>m. received (EvMessage m)) ms)"
      by (simp only: run_events_append)
  qed
  ultimately show ?thesis by (intro conjI)
qed

theorem console_log_since_last_clear_witness:
  "consoleMessagesEl (init default_options) = Some [Placeholder]
   \<and> clears (run_events (init default_options)
        [EvMessage (JObj [(''type'', JStr ''console''), (''method'', JStr ''log''),
                          (''args'', JArr [JStr ''a''])] None)]) EvRunCode
   \<and> consoleMessages (run_events (init default_options)
        [EvMessage (JObj [(''type'', JStr ''console''), (''method'', JStr ''log''),
                          (''args'', JArr [JStr ''a''])] None),
         EvRunCode,
         EvMessage (JObj [(''type'', JStr ''console''), (''method'', JStr ''warn''),
                          (''args'', JArr [JStr ''b''])] None),
         EvMessage (JObj [(''type'', JStr ''resize'')] None),
         EvMessage (JObj [(''type'', JStr ''console''), (''method'', JStr ''log''),
                          (''args'', JArr [JStr ''a'', JObj [(''toString'', JNum 1)] None])]
                      None),
         EvMessage (JObj [(''type'', JStr ''console''), (''method'', JStr ''error''),
                          (''args'', JArr [JStr ''c'', JStr ''d''])] None)])
      = [(JStr ''warn'', JArr [JStr ''b'']), (JStr ''error'', JArr [JStr ''c'', JStr ''d''])]
   \<and> consoleMessages (run_events (init default_options)
        [EvMessage (JObj [(''type'', JStr ''console''), (''method'', JStr ''log''),
                          (''args'', JArr [JStr ''a''])] None),
         EvEdit ''x'',
         EvMessage (JObj [(''type'', JStr ''console''), (''method'', JStr ''info''),
                          (''args'', JArr [JNum 7])] None)])
      = [(JStr ''log'', JArr [JStr ''a'']), (JStr ''info'', JArr [JNum 7])]"
proof -
  let ?a = "JObj [(''type'', JStr ''console''), (''method'', JStr ''log''),
                  (''args'', JArr [JStr ''a''])] None"
  let ?ms = "[JObj [(''type'', JStr ''console''), (''method'', JStr ''warn''),
                    (''args'', JArr [JStr ''b''])] None,
              JObj [(''type'', JStr ''resize'')] None,
              JObj [(''type'', JStr ''console''), (''method'', JStr ''log''),
                    (''args'', JArr [JStr ''a'', JObj [(''toString'', JNum 1)] None])] None,
              JObj [(''type'', JStr ''console''), (''method'', JStr ''error''),
                    (''args'', JArr [JStr ''c'', JStr ''d''])] None]"
  let ?evs = "[EvMessage ?a, EvEdit ''x'',
               EvMessage (JObj [(''type'', JStr ''console''), (''method'', JStr ''info''),
                                (''args'', JArr [JNum 7])] None)]"
  have p: "consoleMessagesEl (init default_options) = Some [Placeholder]"
    by (simp add: init_def createStructure_def default_options_def)
  then have p': "consoleMessagesEl (init default_options) \<noteq> None" by simp
  have e: "consoleMessages (init default_options) = []"
    by (simp add: init_def createStructure_def default_options_def)
  have c: "clears (run_events (init default_options) [EvMessage ?a]) EvRunCode" by simp
  from console_log_since_last_clear [OF p', of "[EvMessage ?a]" EvRunCode ?ms] c
  have r1: "consoleMessages (run_events (init default_options)
              ([EvMessage ?a] @ EvRunCode # map EvMessage ?ms))
            = [(JStr ''warn'', JArr [JStr ''b'']), (JStr ''error'', JArr [JStr ''c'', JStr ''d''])]"
    by (simp add: showable_def)
  from console_log_since_last_clear [OF p', of ?evs]
  have r2: "consoleMessages (run_events (init default_options) ?evs)
            = [(JStr ''log'', JArr [JStr ''a'']), (JStr ''info'', JArr [JNum 7])]"
    by (simp add: e showable_def)
  from p c r1 r2 show ?thesis by simp
qed

text \<open>
  Claim C4 as stated fails at a widget without a console panel: a message of the
  described shape, received after a run, is not in the log.
\<close>

theorem console_log_no_panel:
  "described_shape (JObj [(''type'', JStr ''console''), (''method'', JStr ''log''),
                          (''args'', JArr [JStr ''a''])] None)
   \<and> consoleMessages (run_events (init (default_options\<lparr>showConsole := False\<rparr>))
        [EvRunCode,
         EvMessage (JObj [(''type'', JStr ''console''), (''method'', JStr ''log''),
                          (''args'', JArr [JStr ''a''])] None)])
      = []"
  by (simp add: described_shape_def is_string_def run_events_def keep_on_error_def
      on_message_def addConsoleMessage_def runCode_fields init_def createStructure_def
      default_options_def)

section \<open>Properties of the example switcher\<close>

lemma tab_text_retag:
  "map tab_text (map (\<lambda>(i, t). t\<lparr>tab_active := (i = index)\<rparr>) (zip [0..<length ts] ts))
     = map tab_text ts"
  by (rule nth_equalityI) simp_all

lemma tab_active_retag:
  "map tab_active (map (\<lambda>(i, t). t\<lparr>tab_active := (i = index)\<rparr>) (zip [0..<length ts] ts))
     = map (\<lambda>j. j = index) [0..<length ts]"
  by (rule nth_equalityI) simp_all

lemma tab_text_fresh:
  "map tab_text (map (\<lambda>(i, ex). \<lparr>tab_text = ex_name ex, tab_active = (i = 0)\<rparr>)
                     (zip [0..<length exs] exs))
     = map ex_name exs"
  by (rule nth_equalityI) simp_all

lemma loadExample_tabs:
  assumes "tabs_match w"
  shows "tabs_match (keep_on_error w (loadExample i w))"
proof (cases "examples w")
  case None
  with assms show ?thesis by (simp add: loadExample_def keep_on_error_def)
next
  case (Some exs)
  show ?thesis
  proof (cases "i < length exs")
    case False
    with Some assms show ?thesis by (simp add: loadExample_def keep_on_error_def)
  next
    case True
    let ?w1 = "w\<lparr>examplesTabs := map (\<lambda>(j, t). t\<lparr>tab_active := (j = i)\<rparr>)
                                   (zip [0..<length (examplesTabs w)] (examplesTabs w))\<rparr>"
    from Some True have "loadExample i w = Inr (runCode (setCode (ex_code (exs ! i)) ?w1))"
      by (simp add: loadExample_def Let_def)
    moreover from Some assms have "map tab_text (examplesTabs ?w1) = map ex_name exs"
      using tab_text_retag [of i "examplesTabs w"] by (simp add: tabs_match_def)
    ultimately show ?thesis using Some
      by (simp add: keep_on_error_def tabs_match_def runCode_fields setCode_def)
  qed
qed

lemma setExamples_tabs:
  assumes "tabs_match w"
  shows "tabs_match (keep_on_error w (setExamples exs w))"
proof (cases "exs = []")
  case True
  with assms show ?thesis
    by (simp add: setExamples_def keep_on_error_def tabs_match_def split: option.splits)
next
  case False
  let ?w1 = "w\<lparr>examplesTabs_shown := True, examples := Some exs,
               examplesTabs := map (\<lambda>(i, ex). \<lparr>tab_text = ex_name ex, tab_active = (i = 0)\<rparr>)
                                   (zip [0..<length exs] exs)\<rparr>"
  have "tabs_match ?w1"
    using tab_text_fresh [of exs] by (simp add: tabs_match_def)
  then have "tabs_match (keep_on_error ?w1 (loadExample 0 ?w1))"
    by (rule loadExample_tabs)
  moreover from False obtain w' where "loadExample 0 ?w1 = Inr w'"
    by (simp add: loadExample_def Let_def)
  ultimately show ?thesis using False
    by (simp add: setExamples_def keep_on_error_def)
qed

lemma on_message_tabs:
  assumes "tabs_match w"
  shows "tabs_match (keep_on_error w (on_message data w))"
proof (cases "consoleMessagesEl w")
  case None
  with assms show ?thesis by (simp add: keep_on_error_def on_message_no_panel)
next
  case (Some children)
  from on_message_cases [OF this, of data]
  have "examples (keep_on_error w (on_message data w)) = examples w
      \<and> examplesTabs (keep_on_error w (on_message data w)) = examplesTabs w"
    by (auto simp: keep_on_error_def simp del: received.simps)
  with assms show ?thesis by (simp add: tabs_match_def split: option.splits)
qed

lemma step_tabs:
  assumes "tabs_match w"
  shows "tabs_match (step w ev)"
proof (cases ev)
  case (EvMessage data)
  with assms show ?thesis by (simp add: on_message_tabs)
next
  case (EvSetExamples exs)
  with assms show ?thesis by (simp add: setExamples_tabs)
next
  case (EvLoadExample i)
  with assms show ?thesis by (simp add: loadExample_tabs)
qed (use assms in
      \<open>simp_all add: tabs_match_def setCode_def edit_def runCode_fields clearConsole_fields
         resetCode_def split: option.splits\<close>)

lemma run_events_tabs: "tabs_match w \<Longrightarrow> tabs_match (run_events w evs)"
  by (induction evs arbitrary: w) (simp_all add: run_events_def step_tabs)

lemma init_tabs: "tabs_match (init opts)"
  by (simp add: tabs_match_def init_def Let_def createStructure_def runCode_fields setCode_def
      split: option.splits)

text \<open>
  Claim C9, as the code has it. In any state that a constructed widget reaches, for every
  valid index \<open>i\<close> into the current example list, \<^verbatim>\<open>loadExample(i)\<close> returns
  normally, makes the code of example \<open>i\<close> the resettable original and the text of the
  editor, there held with every CR LF and CR as LF (so exactly the code when it has no
  carriage return), loads the document generated from the editor's text into the frame,
  and leaves tab \<open>i\<close> active and every other tab not active.
\<close>

theorem loadExample_selects:
  assumes "construct container_found opts = Some w0"
      and "w = run_events w0 evs"
      and "examples w = Some exs"
      and "i < length exs"
  shows "\<exists>w'. loadExample i w = Inr w'
          \<and> originalCode w' = ex_code (exs ! i)
          \<and> getCode w' = cm_text (ex_code (exs ! i))
          \<and> (CHR 0x0D \<notin> set (ex_code (exs ! i)) \<longrightarrow> getCode w' = ex_code (exs ! i))
          \<and> previewFrame w'
              = previewFrame w @ [generatePreviewHTML (cm_text (ex_code (exs ! i)))]
          \<and> map tab_text (examplesTabs w') = map ex_name exs
          \<and> map tab_active (examplesTabs w') = map (\<lambda>j. j = i) [0..<length exs]"
proof -
  from assms(1) have "w0 = init opts"
    by (simp add: construct_def split: if_splits)
  then have "tabs_match w"
    using assms(2) by (simp add: run_events_tabs init_tabs)
  with assms(3) have texts: "map tab_text (examplesTabs w) = map ex_name exs"
    by (simp add: tabs_match_def)
  then have len: "length (examplesTabs w) = length exs"
    by (metis length_map)
  let ?w1 = "w\<lparr>examplesTabs := map (\<lambda>(j, t). t\<lparr>tab_active := (j = i)\<rparr>)
                                 (zip [0..<length (examplesTabs w)] (examplesTabs w))\<rparr>"
  from assms(3,4) have "loadExample i w = Inr (runCode (setCode (ex_code (exs ! i)) ?w1))"
    by (simp add: loadExample_def Let_def)
  moreover have "map tab_active (examplesTabs ?w1) = map (\<lambda>j. j = i) [0..<length exs]"
    using tab_active_retag [of i "examplesTabs w"] len by simp
  moreover have "map tab_text (examplesTabs ?w1) = map ex_name exs"
    using tab_text_retag [of i "examplesTabs w"] texts by simp
  ultimately show ?thesis
    by (simp add: runCode_fields getCode_def setCode_def cm_text_id)
qed

theorem loadExample_selects_witness:
  "construct True default_options = Some (init default_options)
   \<and> examples (run_events (init default_options)
        [EvSetExamples [\<lparr>ex_name = ''circle'', ex_code = ''circle(1,2,3)''\<rparr>,
                        \<lparr>ex_name = ''line'', ex_code = ''line(1,2,3,4)''\<rparr>,
                        \<lparr>ex_name = ''point'', ex_code = ''point(5,6)''\<rparr>]])
       = Some [\<lparr>ex_name = ''circle'', ex_code = ''circle(1,2,3)''\<rparr>,
               \<lparr>ex_name = ''line'', ex_code = ''line(1,2,3,4)''\<rparr>,
               \<lparr>ex_name = ''point'', ex_code = ''point(5,6)''\<rparr>]
   \<and> (1::nat) < length [\<lparr>ex_name = ''circle'', ex_code = ''circle(1,2,3)''\<rparr>,
               \<lparr>ex_name = ''line'', ex_code = ''line(1,2,3,4)''\<rparr>,
               \<lparr>ex_name = ''point'', ex_code = ''point(5,6)''\<rparr>]
   \<and> (\<exists>w'. loadExample 1 (run_events (init default_options)
        [EvSetExamples [\<lparr>ex_name = ''circle'', ex_code = ''circle(1,2,3)''\<rparr>,
                        \<lparr>ex_name = ''line'', ex_code = ''line(1,2,3,4)''\<rparr>,
                        \<lparr>ex_name = ''point'', ex_code = ''point(5,6)''\<rparr>]]) = Inr w'
        \<and> getCode w' = ''line(1,2,3,4)''
        \<and> map tab_active (examplesTabs w') = [False, True, False])"
proof -
  let ?exs = "[\<lparr>ex_name = ''circle'', ex_code = ''circle(1,2,3)''\<rparr>,
               \<lparr>ex_name = ''line'', ex_code = ''line(1,2,3,4)''\<rparr>,
               \<lparr>ex_name = ''point'', ex_code = ''point(5,6)''\<rparr>]"
  let ?w = "run_events (init default_options) [EvSetExamples ?exs]"
  have c: "construct True default_options = Some (init default_options)"
    by (simp add: construct_def)
  have e: "examples ?w = Some ?exs"
    by (simp add: run_events_def keep_on_error_def setExamples_def loadExample_def Let_def
        runCode_fields setCode_def)
  have i: "(1::nat) < length ?exs" by simp
  from loadExample_selects [OF c refl e i] obtain w' where
    load: "loadExample 1 ?w = Inr w'" and
    code: "getCode w' = cm_text (ex_code (?exs ! 1))" and
    active: "map tab_active (examplesTabs w') = map (\<lambda>j. j = 1) [0..<length ?exs]"
    by blast
  from code have code': "getCode w' = ''line(1,2,3,4)''" by simp
  from active have active': "map tab_active (examplesTabs w') = [False, True, False]"
    by (simp add: upt_rec)
  from load code' active'
  have "\<exists>w'. loadExample 1 ?w = Inr w' \<and> getCode w' = ''line(1,2,3,4)''
          \<and> map tab_active (examplesTabs w') = [False, True, False]"
    by (intro exI [of _ w'] conjI)
  with c e i show ?thesis by (intro conjI)
qed

text \<open>
  Claim C9 as stated fails for an example whose code has a carriage return: the editor
  then holds the code with a line feed in its place, not the example's code.
\<close>

theorem loadExample_line_break:
  "ex_code (\<lparr>ex_name = ''two lines'', ex_code = [CHR ''a'', CHR 0x0D, CHR ''b'']\<rparr>)
     = [CHR ''a'', CHR 0x0D, CHR ''b'']
   \<and> getCode (step (run_events (init default_options)
        [EvSetExamples [\<lparr>ex_name = ''two lines'', ex_code = [CHR ''a'', CHR 0x0D, CHR ''b'']\<rparr>]])
        (EvLoadExample 0))
      = [CHR ''a'', CHR 0x0A, CHR ''b'']"
  by (simp add: run_events_def keep_on_error_def setExamples_def loadExample_def Let_def
      runCode_fields setCode_def getCode_def)

section \<open>Properties of the preview document when the code throws\<close>















text \<open>
  A thrown \<^verbatim>\<open>null\<close> has no \<^verbatim>\<open>message\<close> to read, and a message with an own
  \<^verbatim>\<open>toString\<close> property has no string conversion: the handler itself throws, the
  report comes from \<^verbatim>\<open>window.onerror\<close>, and no fallback is declared.
\<close>

lemma thrown_null_no_fallback:
  "run_user_script uncaught lineno \<lparr>console_calls = [], outcome = Throw JNull\<rparr>
     = \<lparr>posted = onerror uncaught lineno, fallback = None\<rparr>"
  by (simp add: run_user_script_def)

lemma thrown_unprintable_no_fallback:
  "run_user_script uncaught lineno
     \<lparr>console_calls = [],
      outcome = Throw (JObj [(''message'', JObj [(''toString'', JNum 1)] None)] None)\<rparr>
     = \<lparr>posted = onerror uncaught lineno, fallback = None\<rparr>"
  by (simp add: run_user_script_def)

end
